theory Spec2Isabelle
  imports Complex_Main
begin

section \<open>Common ground\<close>

text \<open>
  The repository is numerical Python. Floating-point numbers are read as real and complex
  numbers; a value that IEEE arithmetic would make infinite or not-a-number has no
  counterpart here, and the places where the source itself produces or tests such a value
  are written out in the definitions below. Exceptions are values of \<open>py_error\<close>;
  a function that may raise returns \<open>py_error + 'a\<close>. \<open>NameError\<close> stands for
  reading a variable that has no value yet (Python's UnboundLocalError is one of its
  kinds); \<open>NonFinite\<close> is not a Python exception: it marks a division by zero inside
  numpy, where the program goes on with an infinity or a not-a-number and leaves the
  numbers this theory has.
\<close>

datatype py_error =
    ValueError
  | IndexError
  | ZeroDivisionError
  | TypeError
  | AttributeError
  | NameError
  | NonFinite

type_synonym 'a vec3 = "'a \<times> 'a \<times> 'a"
type_synonym point = "real vec3"

text \<open>Sequencing of steps that may raise: the first exception ends the computation.\<close>

fun and_then :: "'e + 'a \<Rightarrow> ('a \<Rightarrow> 'e + 'b) \<Rightarrow> 'e + 'b" where
  "and_then (Inl e) f = Inl e"
| "and_then (Inr x) f = f x"

fun sequence_sum :: "('e + 'a) list \<Rightarrow> 'e + 'a list" where
  "sequence_sum [] = Inr []"
| "sequence_sum (Inl e # _) = Inl e"
| "sequence_sum (Inr x # rs) =
     (case sequence_sum rs of Inl e \<Rightarrow> Inl e | Inr xs \<Rightarrow> Inr (x # xs))"

section \<open>realisticmodel: the seafloor derivation\<close>

text \<open>
  \<^verbatim>\<open>seafloor[i, ii] = mesh.nodes_z[:-1][model.property_x[i, ii, :] < 0.33][0]\<close>

  \<open>nodes_z[:-1]\<close> drops the last node, so entry \<open>k\<close> is the lower node of cell \<open>k\<close>.
  The boolean mask must be as long as the array it indexes, and \<open>[0]\<close> of an empty
  selection raises.
\<close>

record tensor_mesh =
  shape_cells :: "nat \<times> nat \<times> nat"
  nodes_z :: "real list"

definition seafloor_column :: "real list \<Rightarrow> real list \<Rightarrow> py_error + real" where
  "seafloor_column nodes column =
     (let lower = butlast nodes in
      if length column \<noteq> length lower then Inl IndexError
      else (case filter (\<lambda>(z, r). r < 33 / 100) (zip lower column) of
              [] \<Rightarrow> Inl IndexError
            | (z, r) # _ \<Rightarrow> Inr z))"

text \<open>\<open>property_x[i, ii, :]\<close>: both indices must be in range.\<close>

definition property_column :: "real list list list \<Rightarrow> nat \<Rightarrow> nat \<Rightarrow> py_error + real list" where
  "property_column property_x i ii =
     (if i < length property_x \<and> ii < length (property_x ! i)
      then Inr (property_x ! i ! ii) else Inl IndexError)"

definition seafloor_entry :: "tensor_mesh \<Rightarrow> real list list list \<Rightarrow> nat \<Rightarrow> nat \<Rightarrow> py_error + real" where
  "seafloor_entry mesh property_x i ii =
     (case property_column property_x i ii of
        Inl e \<Rightarrow> Inl e
      | Inr column \<Rightarrow> seafloor_column (nodes_z mesh) column)"

text \<open>The two nested loops, row by row; the first exception ends the script.\<close>

definition seafloor :: "tensor_mesh \<Rightarrow> real list list list \<Rightarrow> py_error + real list list" where
  "seafloor mesh property_x =
     sequence_sum
       (map (\<lambda>i. sequence_sum
                    (map (\<lambda>ii. seafloor_entry mesh property_x i ii)
                         [0 ..< fst (snd (shape_cells mesh))]))
            [0 ..< fst (shape_cells mesh)])"


definition first_below :: "real list \<Rightarrow> nat \<Rightarrow> bool" where
  "first_below column k \<longleftrightarrow>
     k < length column \<and> column ! k < 33 / 100 \<and> (\<forall>j<k. \<not> column ! j < 33 / 100)"


section \<open>ErrorEstimator: data and the libraries it calls\<close>

text \<open>
  An interpolator object of scipy is called on the three coordinates of a point and
  returns the (complex) field value there. A two-dimensional numpy array is the list of
  its rows.
\<close>

type_synonym interp = "point \<Rightarrow> complex"
type_synonym cmatrix = "complex list list"
type_synonym domain = "(real \<times> real) vec3"

text \<open>
  The attributes of a discretize mesh that ErrorEstimator reads; \<open>octree\<close> is the rest
  of the object (its cells and the refinements asked of it).
\<close>

record 'o mesh =
  faces_x :: "point list"
  faces_y :: "point list"
  faces_z :: "point list"
  edges_x :: "point list"
  edges_y :: "point list"
  edges_z :: "point list"
  n_faces_x :: nat
  n_faces_y :: nat
  n_faces_z :: nat
  n_edges_x :: nat
  n_edges_y :: nat
  n_edges_z :: nat
  n_cells :: nat
  cell_centers :: "point list"
  octree :: 'o

text \<open>\<^verbatim>\<open>maps.InjectActiveCells(mesh, ind_active, value)\<close> and the two simulation classes of
  SimPEG are objects built from their arguments; \<open>map_kind\<close> is the keyword the model map
  is passed under.\<close>

datatype 'o model_map = InjectActiveCells "'o mesh" "bool list" real

datatype map_kind = rhoMap | sigmaMap

datatype ('o, 's) simulation =
    Simulation3DMagneticFluxDensity "'o mesh" 's map_kind "'o model_map"
  | Simulation3DElectricField "'o mesh" 's map_kind "'o model_map"

text \<open>
  The functions of other modules and libraries, taken as parameters.
  \<^item> Meshing (a module of this repository whose source is not among the files):
    \<open>create_octree_mesh\<close>, \<open>refine_at_locations\<close>, \<open>get_ind_block\<close>,
    \<open>get_ind_sphere\<close> and the four \<open>search_area_\<close> functions. The last two arguments
    of \<open>get_ind_block\<close> are optional at the call sites of ErrorEstimator: \<open>None\<close> is an
    argument left out, for which Meshing's own default applies.
  \<^item> discretize and SimPEG: \<open>finalize\<close>, \<open>surface2ind_topo\<close>, \<open>fields_of sim model name\<close>
    for \<^verbatim>\<open>sim.fields(model)[:, name]\<close> and \<open>getSourceTerm\<close>.
  \<^item> scipy: the three interpolator classes. numdifftools: \<open>Jacobian f order x\<close> for
    \<^verbatim>\<open>nd.Jacobian(f, order=order)(x)\<close>, a 3 by 3 array whose entries may be
    not-a-number (\<open>None\<close>).
  \<^item> numpy: \<open>introselect a k\<close> is the index permutation \<^verbatim>\<open>np.argpartition\<close> computes
    for an array \<open>a\<close> and a position \<open>k\<close> within it.
\<close>

record ('o, 's) externals =
  create_octree_mesh :: "domain \<Rightarrow> real vec3 \<Rightarrow> point list \<Rightarrow> string \<Rightarrow> 'o mesh"
  refine_at_locations :: "'o mesh \<Rightarrow> point list \<Rightarrow> 'o mesh"
  finalize :: "'o mesh \<Rightarrow> 'o mesh"
  get_ind_block :: "'o mesh \<Rightarrow> bool list \<Rightarrow> real list \<Rightarrow> string option \<Rightarrow> real option \<Rightarrow> bool list"
  get_ind_sphere :: "'o mesh \<Rightarrow> bool list \<Rightarrow> real list \<Rightarrow> real \<Rightarrow> bool list"
  search_area_object :: "'o mesh \<Rightarrow> point list \<Rightarrow> real \<Rightarrow> point list"
  search_area_receivers :: "'o mesh \<Rightarrow> point list \<Rightarrow> real \<Rightarrow> point list"
  search_area_sources :: "'o mesh \<Rightarrow> point list \<Rightarrow> real \<Rightarrow> point list"
  search_area_landscape :: "'o mesh \<Rightarrow> domain \<Rightarrow> point list \<Rightarrow> real \<Rightarrow> point list"
  surface2ind_topo :: "'o mesh \<Rightarrow> point list \<Rightarrow> bool list"
  fields_of :: "('o, 's) simulation \<Rightarrow> real list \<Rightarrow> string \<Rightarrow> cmatrix"
  getSourceTerm :: "('o, 's) simulation \<Rightarrow> real \<Rightarrow> cmatrix \<times> cmatrix"
  Rbf :: "real list \<Rightarrow> real list \<Rightarrow> real list \<Rightarrow> complex list \<Rightarrow> interp"
  LinearNDInterpolator :: "point list \<Rightarrow> complex list \<Rightarrow> interp"
  NearestNDInterpolator :: "point list \<Rightarrow> complex list \<Rightarrow> interp"
  Jacobian :: "(point \<Rightarrow> complex vec3) \<Rightarrow> nat \<Rightarrow> point \<Rightarrow> complex option vec3 vec3"
  introselect :: "real list \<Rightarrow> nat \<Rightarrow> nat list"

subsection \<open>numpy operations\<close>

text \<open>
  \<open>np_subtract\<close> is the elementwise difference of two arrays of one shape. (numpy also
  accepts some unequal shapes, by broadcasting; the two arrays subtracted in
  ErrorEstimator come from one simulation and are reported as \<open>ValueError\<close> here when
  their shapes differ.) \<open>np_reshape a n\<close> is \<^verbatim>\<open>np.reshape(a, n)\<close>: the elements in row
  order, when there are exactly \<open>n\<close> of them. \<open>slice a lo hi\<close> is \<^verbatim>\<open>a[lo:hi]\<close> for
  bounds that are not negative, and \<open>slice_from s a\<close> is \<^verbatim>\<open>a[s:]\<close> for any integer.
\<close>

definition np_scale :: "complex \<Rightarrow> cmatrix \<Rightarrow> cmatrix" where
  "np_scale c a = map (map (\<lambda>z. c * z)) a"

definition np_subtract :: "cmatrix \<Rightarrow> cmatrix \<Rightarrow> py_error + cmatrix" where
  "np_subtract a b =
     (if map length a = map length b
      then Inr (map (\<lambda>(r, q). map (\<lambda>(x, y). x - y) (zip r q)) (zip a b))
      else Inl ValueError)"

definition np_reshape :: "cmatrix \<Rightarrow> nat \<Rightarrow> py_error + complex list" where
  "np_reshape a n = (if length (concat a) = n then Inr (concat a) else Inl ValueError)"

definition slice :: "'a list \<Rightarrow> nat \<Rightarrow> nat \<Rightarrow> 'a list" where
  "slice a lo hi = take (hi - lo) (drop lo a)"

definition slice_from :: "int \<Rightarrow> 'a list \<Rightarrow> 'a list" where
  "slice_from s a =
     (let n = int (length a);
          start = (if s < 0 then max (s + n) 0 else min s n)
      in drop (nat start) a)"

text \<open>\<^verbatim>\<open>a[idx]\<close> for an array of indices: every index must be in range.\<close>

definition take_rows :: "'a list \<Rightarrow> nat list \<Rightarrow> py_error + 'a list" where
  "take_rows a idx =
     (if list_all (\<lambda>k. k < length a) idx then Inr (map (\<lambda>k. a ! k) idx) else Inl IndexError)"

text \<open>
  \<^verbatim>\<open>np.argpartition(a, kth)\<close>: a negative \<open>kth\<close> counts from the end; a position outside
  a non-empty array is a ValueError.
\<close>

definition np_argpartition :: "('o, 's) externals \<Rightarrow> real list \<Rightarrow> int \<Rightarrow> py_error + nat list" where
  "np_argpartition E a kth =
     (let n = int (length a);
          k = (if kth < 0 then kth + n else kth)
      in if a \<noteq> [] \<and> (k < 0 \<or> n \<le> k) then Inl ValueError
         else Inr (introselect E a (nat k)))"


text \<open>\<^verbatim>\<open>np.linalg.norm\<close> of a vector of three complex numbers.\<close>

definition linalg_norm :: "complex vec3 \<Rightarrow> real" where
  "linalg_norm v =
     (case v of (a, b, c) \<Rightarrow> sqrt ((cmod a)\<^sup>2 + (cmod b)\<^sup>2 + (cmod c)\<^sup>2))"

definition vec3_sub :: "complex vec3 \<Rightarrow> complex vec3 \<Rightarrow> complex vec3" where
  "vec3_sub u v = (case u of (a, b, c) \<Rightarrow> case v of (a', b', c') \<Rightarrow> (a - a', b - b', c - c'))"

text \<open>Row or column 0, 1, 2 of an array of three.\<close>

definition at0 :: "'a vec3 \<Rightarrow> 'a" where "at0 v = fst v"
definition at1 :: "'a vec3 \<Rightarrow> 'a" where "at1 v = fst (snd v)"
definition at2 :: "'a vec3 \<Rightarrow> 'a" where "at2 v = snd (snd v)"

definition map_vec3 :: "('a \<Rightarrow> 'b) \<Rightarrow> 'a vec3 \<Rightarrow> 'b vec3" where
  "map_vec3 f v = (f (at0 v), f (at1 v), f (at2 v))"

subsection \<open>The three interpolation strategies\<close>

definition interpolate_rbf ::
  "('o, 's) externals \<Rightarrow> point list \<Rightarrow> point list \<Rightarrow> point list \<Rightarrow>
     complex list \<Rightarrow> complex list \<Rightarrow> complex list \<Rightarrow> interp \<times> interp \<times> interp" where
  "interpolate_rbf E x y z x_val y_val z_val =
     (let x_interpolated = Rbf E (map at0 x) (map at1 x) (map at2 x) x_val;
          y_interpolated = Rbf E (map at0 y) (map at1 y) (map at2 y) y_val;
          z_interpolated = Rbf E (map at0 z) (map at1 z) (map at2 z) z_val
      in (x_interpolated, y_interpolated, z_interpolated))"

definition interpolate_nearest ::
  "('o, 's) externals \<Rightarrow> point list \<Rightarrow> point list \<Rightarrow> point list \<Rightarrow>
     complex list \<Rightarrow> complex list \<Rightarrow> complex list \<Rightarrow> interp \<times> interp \<times> interp" where
  "interpolate_nearest E x y z x_val y_val z_val =
     (let x_interpolated = NearestNDInterpolator E x x_val;
          y_interpolated = NearestNDInterpolator E y y_val;
          z_interpolated = NearestNDInterpolator E z z_val
      in (x_interpolated, y_interpolated, z_interpolated))"

definition interpolate_linear ::
  "('o, 's) externals \<Rightarrow> point list \<Rightarrow> point list \<Rightarrow> point list \<Rightarrow>
     complex list \<Rightarrow> complex list \<Rightarrow> complex list \<Rightarrow> interp \<times> interp \<times> interp" where
  "interpolate_linear E x y z x_val y_val z_val =
     (let x_interpolated = LinearNDInterpolator E x x_val;
          y_interpolated = LinearNDInterpolator E y y_val;
          z_interpolated = LinearNDInterpolator E z z_val
      in (x_interpolated, y_interpolated, z_interpolated))"

subsection \<open>estimate_curl_electric_field\<close>

definition estimate_curl_electric_field ::
  "('o, 's) externals \<Rightarrow> 'o mesh \<Rightarrow> 's \<Rightarrow> 'o model_map \<Rightarrow> real list \<Rightarrow> string \<Rightarrow>
     real \<Rightarrow> real \<Rightarrow> string \<Rightarrow>
     py_error + (interp \<times> interp \<times> interp \<times> interp \<times> interp \<times> interp)" where
  "estimate_curl_electric_field E mesh survey model_map model interpolation frequency omega
       parameter =
     (let x_faces = faces_x mesh;
          y_faces = faces_y mesh;
          z_faces = faces_z mesh;
          x_edges = edges_x mesh;
          y_edges = edges_y mesh;
          z_edges = edges_z mesh;
          simulation =
            (if parameter = ''resistivity''
             then Simulation3DMagneticFluxDensity mesh survey rhoMap model_map
             else Simulation3DMagneticFluxDensity mesh survey sigmaMap model_map);
          simulationelectricfield =
            (if parameter = ''resistivity''
             then Simulation3DElectricField mesh survey rhoMap model_map
             else Simulation3DElectricField mesh survey sigmaMap model_map);
          magnetic_flux_density = fields_of E simulation model ''bSolution'';
          sources = getSourceTerm E simulation frequency;
          Sm = fst sources
      in and_then (np_subtract Sm (np_scale (\<i> * complex_of_real omega) magnetic_flux_density))
           (\<lambda>curl.
      and_then (np_reshape curl (length curl))
           (\<lambda>curl.
      let x_curl = slice curl 0 (n_faces_x mesh);
          y_curl = slice curl (n_faces_x mesh) (n_faces_x mesh + n_faces_y mesh);
          z_curl = slice curl (n_faces_x mesh + n_faces_y mesh)
                     (n_faces_x mesh + n_faces_y mesh + n_faces_z mesh);
          interpolator =
            (if interpolation = ''rbf'' then interpolate_rbf E
             else if interpolation = ''linear'' then interpolate_linear E
             else interpolate_nearest E);
          (curl_x_inter, curl_y_inter, curl_z_inter) =
            interpolator x_faces y_faces z_faces x_curl y_curl z_curl;
          EF = fields_of E simulationelectricfield model ''eSolution''
      in and_then (np_reshape EF (length EF))
           (\<lambda>EF.
      let EF_x = slice EF 0 (n_edges_x mesh);
          EF_y = slice EF (n_edges_x mesh) (n_edges_x mesh + n_edges_y mesh);
          EF_z = slice EF (n_edges_x mesh + n_edges_y mesh)
                   (n_edges_x mesh + n_edges_y mesh + n_edges_z mesh);
          (EF_x_inter, EF_y_inter, EF_z_inter) =
            interpolator x_edges y_edges z_edges EF_x EF_y EF_z
      in Inr (curl_x_inter, curl_y_inter, curl_z_inter, EF_x_inter, EF_y_inter, EF_z_inter)))))"

subsection \<open>compute_cell_error and estimate_error\<close>

text \<open>\<^verbatim>\<open>jacobian[np.isnan(jacobian)] = 0\<close>\<close>

definition zero_if_nan :: "complex option \<Rightarrow> complex" where
  "zero_if_nan v = (case v of None \<Rightarrow> 0 | Some z \<Rightarrow> z)"

definition nan_to_zero :: "complex option vec3 vec3 \<Rightarrow> complex vec3 vec3" where
  "nan_to_zero jacobian = map_vec3 (map_vec3 zero_if_nan) jacobian"

definition compute_cell_error ::
  "('o, 's) externals \<Rightarrow> point \<Rightarrow> interp \<Rightarrow> interp \<Rightarrow> interp \<Rightarrow> interp \<Rightarrow> interp \<Rightarrow> interp \<Rightarrow> real"
  where
  "compute_cell_error E cell curl_x curl_y curl_z ef_x ef_y ef_z =
     (let ef_interpolator = (\<lambda>x. (ef_x x, ef_y x, ef_z x));
          jacobian = Jacobian E ef_interpolator 2 cell;
          jacobian = nan_to_zero jacobian;
          curl = (at1 (at2 jacobian) - at2 (at1 jacobian),
                  at2 (at0 jacobian) - at0 (at2 jacobian),
                  at0 (at1 jacobian) - at1 (at0 jacobian));
          curl_field = (curl_x cell, curl_y cell, curl_z cell);
          error = linalg_norm (vec3_sub curl_field curl)
      in error)"

text \<open>
  estimate_error writes the errors to the file error.npy and then selects; the first
  component of the result is what the file holds afterwards, the second what the call
  returns or raises.
\<close>

definition estimate_error ::
  "('o, 's) externals \<Rightarrow> point list \<Rightarrow> interp \<Rightarrow> interp \<Rightarrow> interp \<Rightarrow> interp \<Rightarrow> interp \<Rightarrow> interp \<Rightarrow>
     real \<Rightarrow> real list \<times> (py_error + point list)" where
  "estimate_error E search_area curl_x curl_y curl_z ef_x ef_y ef_z refine_percentage =
     (let cell_errors =
            map (\<lambda>cell. compute_cell_error E cell curl_x curl_y curl_z ef_x ef_y ef_z) search_area;
          n_refine_cells = \<lceil>refine_percentage * real (length search_area)\<rceil>
      in (cell_errors,
          and_then (np_argpartition E cell_errors (- n_refine_cells))
            (\<lambda>perm. take_rows search_area (slice_from (- n_refine_cells) perm))))"

section \<open>ErrorEstimator: the two iteration schemes\<close>

subsection \<open>Variables, list objects and what a run leaves behind\<close>

text \<open>
  A local variable of a running function either has a value or has none yet. A parameter
  whose default is \<open>None\<close> holds an \<open>option\<close>. The refinement-history lists are list
  objects: a variable holds a reference (an address) and \<open>heap\<close> maps every address to
  the list's current content, so that two variables bound to one list object see each
  other's appends. Addresses from \<open>next_ref\<close> on are unused.
\<close>

datatype 'a var = Unbound | Bound 'a

datatype print_line = PrintAverage real | PrintI int | PrintIteration int

text \<open>The components of a returned tuple.\<close>

datatype 'o pyval =
    PyMesh "'o mesh"
  | PyInterp interp
  | PyArray "(int \<times> real) list"
  | PyListRef nat
  | PyNone

record 'o outcome =
  returned :: "'o pyval list"
  heap_after :: "nat \<Rightarrow> point list list"
  error_npy_after :: "real list option"
  stdout_after :: "print_line list"

text \<open>
  The variables of \<open>iterator\<close> and \<open>iteratornonobject\<close>: their parameters (a parameter is
  a local variable, and several are assigned to), their other locals, and the state
  outside the function that they change (the list objects, the file error.npy, the
  printed lines). A call is given the frame with its parameters filled in. The first
  column of the convergence record holds iteration numbers and is kept as integers.
  \<open>Ex_arg\<close>, \<open>Ey_arg\<close>, \<open>Ez_arg\<close> are the parameters Ex, Ey, Ez, and \<open>i_var\<close> is the
  counter i.
\<close>

record ('o, 's) frame =
  mesh :: "'o mesh"
  domain :: domain
  cell_width :: "real vec3"
  receiver_locations :: "point list"
  source_locations :: "point list"
  survey :: 's
  frequency :: real
  omega :: real
  parameter :: string
  interpolation :: string
  lim_iterations :: int
  factor_receiver :: real
  factor_source :: real
  refine_percentage :: real
  Ex_arg :: "interp option"
  Ey_arg :: "interp option"
  Ez_arg :: "interp option"
  diff_list :: "(int \<times> real) list"
  r_a_r_list :: "nat option"
  r_a_s_list :: "nat option"
  surface :: "point list"
  objct :: "point list"
  coordinates :: "real list"
  par_background :: real
  par_object :: real
  ind_object :: "bool list"
  type_object :: string
  factor_object :: real
  axis :: string
  degrees_rad :: real
  radius :: real
  r_a_o_list :: "nat option"
  landscape :: "point list"
  resistivity_function :: "point list \<Rightarrow> real list"
  factor_landscape :: real
  par_inactive :: real
  r_a_l_list :: "nat option"
  model_map :: "'o model_map"
  model :: "real list"
  ind_active :: "bool list"
  diff :: real
  i_var :: int
  av_diff_list :: "(int \<times> real) list"
  refine_at_object_list :: "nat option"
  refine_at_landscape_list :: "nat option"
  refine_at_receivers_list :: "nat option"
  refine_at_sources_list :: "nat option"
  ef_old_x :: "interp option var"
  ef_old_y :: "interp option var"
  ef_old_z :: "interp option var"
  search_area_obj :: "point list"
  search_area_below_landscape :: "point list"
  search_area_receiv :: "point list"
  search_area_sourc :: "point list"
  curl_x :: "interp var"
  curl_y :: "interp var"
  curl_z :: "interp var"
  ef_x :: "interp var"
  ef_y :: "interp var"
  ef_z :: "interp var"
  heap :: "nat \<Rightarrow> point list list"
  next_ref :: nat
  error_npy :: "real list option"
  stdout :: "print_line list"

subsection \<open>Steps shared by the two schemes\<close>

text \<open>Reading a variable, and calling the interpolator a variable holds.\<close>

definition read_var :: "'a var \<Rightarrow> py_error + 'a" where
  "read_var v = (case v of Unbound \<Rightarrow> Inl NameError | Bound x \<Rightarrow> Inr x)"

definition call_interp :: "interp var \<Rightarrow> point \<Rightarrow> py_error + complex" where
  "call_interp v x = (case v of Unbound \<Rightarrow> Inl NameError | Bound f \<Rightarrow> Inr (f x))"

definition call_old_interp :: "interp option var \<Rightarrow> point \<Rightarrow> py_error + complex" where
  "call_old_interp v x =
     (case v of Unbound \<Rightarrow> Inl NameError
      | Bound None \<Rightarrow> Inl TypeError
      | Bound (Some f) \<Rightarrow> Inr (f x))"

text \<open>The two closures defined before the loop; they read the variables when called.\<close>

definition ef_interpolator :: "('o, 's) frame \<Rightarrow> point \<Rightarrow> py_error + complex vec3" where
  "ef_interpolator F x =
     and_then (call_interp (ef_x F) x) (\<lambda>a.
     and_then (call_interp (ef_y F) x) (\<lambda>b.
     and_then (call_interp (ef_z F) x) (\<lambda>c. Inr (a, b, c))))"

definition ef_old_interpolator :: "('o, 's) frame \<Rightarrow> point \<Rightarrow> py_error + complex vec3" where
  "ef_old_interpolator F x =
     and_then (call_old_interp (ef_old_x F) x) (\<lambda>a.
     and_then (call_old_interp (ef_old_y F) x) (\<lambda>b.
     and_then (call_old_interp (ef_old_z F) x) (\<lambda>c. Inr (a, b, c))))"

text \<open>
  One pass of a comparison loop:
  \<^verbatim>\<open>form = np.abs((ef_old_interpolator(cell) - ef_interpolator(cell)) / ef_old_interpolator(cell))\<close>
  and \<^verbatim>\<open>np.linalg.norm(form)\<close>. The previous field is evaluated once here (the source
  evaluates it twice, to the same value). A component of the previous field that is zero
  makes numpy divide by zero.
\<close>

definition relative_difference :: "complex vec3 \<Rightarrow> complex vec3 \<Rightarrow> real" where
  "relative_difference old new =
     linalg_norm (complex_of_real (cmod ((at0 old - at0 new) / at0 old)),
                  complex_of_real (cmod ((at1 old - at1 new) / at1 old)),
                  complex_of_real (cmod ((at2 old - at2 new) / at2 old)))"

definition form_norm :: "('o, 's) frame \<Rightarrow> point \<Rightarrow> py_error + real" where
  "form_norm F cell =
     and_then (ef_old_interpolator F cell) (\<lambda>old.
     and_then (ef_interpolator F cell) (\<lambda>new.
       if at0 old = 0 \<or> at1 old = 0 \<or> at2 old = 0 then Inl NonFinite
       else Inr (relative_difference old new)))"

text \<open>
  The three comparison loops over the three search areas, in the order of the source, and
  \<^verbatim>\<open>diff = sum(relative_difference_Efield) / len(relative_difference_Efield)\<close>,
  \<^verbatim>\<open>av_diff_list.append([i + 1, diff])\<close> and the print.
\<close>

definition average :: "real list \<Rightarrow> py_error + real" where
  "average xs = (if xs = [] then Inl ZeroDivisionError else Inr (sum_list xs / real (length xs)))"

definition compare_fields ::
  "('o, 's) frame \<Rightarrow> point list \<Rightarrow> point list \<Rightarrow> point list \<Rightarrow> py_error + ('o, 's) frame" where
  "compare_fields F area1 area2 area3 =
     and_then (sequence_sum (map (form_norm F) area1)) (\<lambda>r1.
     and_then (sequence_sum (map (form_norm F) area2)) (\<lambda>r2.
     and_then (sequence_sum (map (form_norm F) area3)) (\<lambda>r3.
     and_then (average (r1 @ r2 @ r3)) (\<lambda>d.
       Inr (F\<lparr>diff := d,
               av_diff_list := av_diff_list F @ [(i_var F + 1, d)],
               stdout := stdout F @ [PrintAverage d]\<rparr>)))))"

text \<open>
  \<^verbatim>\<open>if diff_list[0, 0] == 0: if i > 0: ... else: ...\<close>: in a fresh run the first
  iteration compares nothing.
\<close>

definition compare_step ::
  "('o, 's) frame \<Rightarrow> point list \<Rightarrow> point list \<Rightarrow> point list \<Rightarrow> py_error + ('o, 's) frame" where
  "compare_step F area1 area2 area3 =
     (case diff_list F of
        [] \<Rightarrow> Inl IndexError
      | (d0, _) # _ \<Rightarrow>
          if d0 = 0
          then (if i_var F > 0 then compare_fields F area1 area2 area3 else Inr F)
          else compare_fields F area1 area2 area3)"

text \<open>\<^verbatim>\<open>ef_old_x = ef_x\<close> and so on.\<close>

definition cache_fields :: "('o, 's) frame \<Rightarrow> py_error + ('o, 's) frame" where
  "cache_fields F =
     and_then (read_var (ef_x F)) (\<lambda>fx.
     and_then (read_var (ef_y F)) (\<lambda>fy.
     and_then (read_var (ef_z F)) (\<lambda>fz.
       Inr (F\<lparr>ef_old_x := Bound (Some fx), ef_old_y := Bound (Some fy),
               ef_old_z := Bound (Some fz)\<rparr>))))"

text \<open>The call of estimate_curl_electric_field and the assignment of its six results.\<close>

definition interpolate_step :: "('o, 's) externals \<Rightarrow> ('o, 's) frame \<Rightarrow> py_error + ('o, 's) frame" where
  "interpolate_step E F =
     and_then (estimate_curl_electric_field E (mesh F) (survey F) (model_map F) (model F)
                 (interpolation F) (frequency F) (omega F) (parameter F))
       (\<lambda>(cx, cy, cz, ex, ey, ez).
          Inr (F\<lparr>curl_x := Bound cx, curl_y := Bound cy, curl_z := Bound cz,
                  ef_x := Bound ex, ef_y := Bound ey, ef_z := Bound ez\<rparr>))"

text \<open>
  \<^verbatim>\<open>cells = estimate_error(area, curl_x, ..., ef_z, refine_percentage=refine_percentage)\<close>
  followed by \<^verbatim>\<open>lst.append(cells)\<close>. The file is written before the selection can
  raise; appending to \<open>None\<close> is an AttributeError.
\<close>

definition list_append :: "nat option \<Rightarrow> point list \<Rightarrow> ('o, 's) frame \<Rightarrow> py_error + ('o, 's) frame" where
  "list_append r cells F =
     (case r of
        None \<Rightarrow> Inl AttributeError
      | Some a \<Rightarrow> Inr (F\<lparr>heap := (heap F)(a := heap F a @ [cells])\<rparr>))"

definition estimate_and_append ::
  "('o, 's) externals \<Rightarrow> point list \<Rightarrow> nat option \<Rightarrow> ('o, 's) frame \<Rightarrow> py_error + ('o, 's) frame" where
  "estimate_and_append E area r F =
     and_then (read_var (curl_x F)) (\<lambda>cx.
     and_then (read_var (curl_y F)) (\<lambda>cy.
     and_then (read_var (curl_z F)) (\<lambda>cz.
     and_then (read_var (ef_x F)) (\<lambda>ex.
     and_then (read_var (ef_y F)) (\<lambda>ey.
     and_then (read_var (ef_z F)) (\<lambda>ez.
       let (saved, cells_to_refine) =
             estimate_error E area cx cy cz ex ey ez (refine_percentage F)
       in and_then cells_to_refine (\<lambda>cells.
            list_append r cells (F\<lparr>error_npy := Some saved\<rparr>))))))))"

text \<open>
  \<^verbatim>\<open>for refo in lst: refine_at_locations(mesh, refo)\<close>; iterating over \<open>None\<close> is a
  TypeError.
\<close>

definition refine_at_all :: "('o, 's) externals \<Rightarrow> nat option \<Rightarrow> ('o, 's) frame \<Rightarrow> py_error + ('o, 's) frame" where
  "refine_at_all E r F =
     (case r of
        None \<Rightarrow> Inl TypeError
      | Some a \<Rightarrow> Inr (F\<lparr>mesh := foldl (refine_at_locations E) (mesh F) (heap F a)\<rparr>))"

text \<open>\<^verbatim>\<open>model[ind_object] = par_object\<close> with a boolean mask, which must be as long as
  the array.\<close>

definition mask_assign :: "real list \<Rightarrow> bool list \<Rightarrow> real \<Rightarrow> py_error + real list" where
  "mask_assign a msk v =
     (if length msk \<noteq> length a then Inl IndexError
      else Inr (map (\<lambda>(x, b). if b then v else x) (zip a msk)))"

text \<open>A new empty list object.\<close>

definition new_list :: "('o, 's) frame \<Rightarrow> nat \<times> ('o, 's) frame" where
  "new_list F =
     (next_ref F, F\<lparr>heap := (heap F)(next_ref F := []), next_ref := Suc (next_ref F)\<rparr>)"

text \<open>When a call starts, its locals that are not parameters have no value.\<close>

definition enter :: "('o, 's) frame \<Rightarrow> ('o, 's) frame" where
  "enter F = F\<lparr>ef_old_x := Unbound, ef_old_y := Unbound, ef_old_z := Unbound,
               curl_x := Unbound, curl_y := Unbound, curl_z := Unbound,
               ef_x := Unbound, ef_y := Unbound, ef_z := Unbound\<rparr>"

definition ref_value :: "nat option \<Rightarrow> 'o pyval" where
  "ref_value r = (case r of None \<Rightarrow> PyNone | Some a \<Rightarrow> PyListRef a)"

definition leave :: "('o, 's) frame \<Rightarrow> 'o pyval list \<Rightarrow> 'o outcome" where
  "leave F vs = \<lparr>returned = vs, heap_after = heap F, error_npy_after = error_npy F,
                 stdout_after = stdout F\<rparr>"

text \<open>The loop condition of both schemes: \<^verbatim>\<open>diff > 0.01 and i < lim_iterations\<close>.\<close>

definition continues :: "('o, 's) frame \<Rightarrow> bool" where
  "continues F \<longleftrightarrow> diff F > 1 / 100 \<and> i_var F < lim_iterations F"

text \<open>
  The variables that no iteration of either loop assigns to: every parameter but
  \<open>mesh\<close>, \<open>model_map\<close>, \<open>model\<close> and \<open>ind_object\<close>, and the four variables that hold
  the list objects.
\<close>

definition fixed_part where
  "fixed_part F =
     ((domain F, cell_width F, receiver_locations F, source_locations F, survey F),
      (frequency F, omega F, parameter F, interpolation F, lim_iterations F),
      (factor_receiver F, factor_source F, refine_percentage F, diff_list F),
      (Ex_arg F, Ey_arg F, Ez_arg F, r_a_r_list F, r_a_s_list F, r_a_o_list F, r_a_l_list F),
      (surface F, objct F, coordinates F, par_background F, par_object F),
      (type_object F, factor_object F, axis F, degrees_rad F, radius F),
      (landscape F, resistivity_function F, factor_landscape F, par_inactive F),
      (refine_at_object_list F, refine_at_landscape_list F, refine_at_receivers_list F,
       refine_at_sources_list F),
      next_ref F)"

subsection \<open>iterator\<close>

text \<open>
  The model of the embedded object, built before the loop and again after every mesh
  rebuild: active cells below the surface, the map, the background model,
  \<^verbatim>\<open>if type_object == 'block': ind_object = get_ind_block(...)\<close>,
  \<^verbatim>\<open>if type_object == 'sphere': ind_object = get_ind_sphere(...)\<close> and
  \<^verbatim>\<open>model[ind_object] = par_object\<close>. Before the loop get_ind_block is called with
  \<^verbatim>\<open>(mesh, ind_active, coordinates, axis, degrees_rad)\<close>, inside the loop with
  \<^verbatim>\<open>(mesh, ind_active, coordinates)\<close>: \<open>ax\<close> and \<open>dg\<close> are these last two arguments.
  \<^verbatim>\<open>par_background * np.ones(ind_active.sum())\<close> has one entry per active cell.
\<close>

definition iterator_model ::
  "('o, 's) externals \<Rightarrow> string option \<Rightarrow> real option \<Rightarrow> ('o, 's) frame \<Rightarrow> py_error + ('o, 's) frame" where
  "iterator_model E ax dg F =
     (let F = F\<lparr>ind_active := surface2ind_topo E (mesh F) (surface F)\<rparr>;
          F = F\<lparr>model_map := InjectActiveCells (mesh F) (ind_active F) (par_background F)\<rparr>;
          F = F\<lparr>model := replicate (length (filter (\<lambda>b. b) (ind_active F))) (par_background F)\<rparr>;
          F = (if type_object F = ''block''
               then F\<lparr>ind_object := get_ind_block E (mesh F) (ind_active F) (coordinates F) ax dg\<rparr>
               else F);
          F = (if type_object F = ''sphere''
               then F\<lparr>ind_object := get_ind_sphere E (mesh F) (ind_active F) (coordinates F) (radius F)\<rparr>
               else F)
      in and_then (mask_assign (model F) (ind_object F) (par_object F))
           (\<lambda>m. Inr (F\<lparr>model := m\<rparr>)))"

text \<open>
  The statements between the model and the loop: \<^verbatim>\<open>diff = 10\<close> and the choice between a
  fresh run and a resumed one, \<^verbatim>\<open>if diff_list[0, 0] == 0: ... else: ...\<close>.
\<close>

definition iterator_start :: "('o, 's) frame \<Rightarrow> py_error + ('o, 's) frame" where
  "iterator_start F =
     (let F = F\<lparr>diff := 10\<rparr> in
      case diff_list F of
        [] \<Rightarrow> Inl IndexError
      | (d0, _) # _ \<Rightarrow>
          if d0 = 0
          then
            (let F = F\<lparr>i_var := 0, av_diff_list := []\<rparr>;
                 (a, F) = new_list F;
                 F = F\<lparr>refine_at_object_list := Some a\<rparr>;
                 (a, F) = new_list F;
                 F = F\<lparr>refine_at_receivers_list := Some a\<rparr>;
                 (a, F) = new_list F;
                 F = F\<lparr>refine_at_sources_list := Some a\<rparr>
             in Inr F)
          else
            (let F = F\<lparr>i_var := fst (last (diff_list F))\<rparr>;
                 F = F\<lparr>av_diff_list := diff_list F,
                        refine_at_object_list := r_a_o_list F,
                        refine_at_receivers_list := r_a_r_list F,
                        refine_at_sources_list := r_a_s_list F\<rparr>;
                 F = F\<lparr>lim_iterations := lim_iterations F + i_var F\<rparr>;
                 F = F\<lparr>ef_old_x := Bound (Ex_arg F), ef_old_y := Bound (Ey_arg F),
                        ef_old_z := Bound (Ez_arg F)\<rparr>
             in Inr F))"

text \<open>Everything before the loop.\<close>

definition iterator_setup :: "('o, 's) externals \<Rightarrow> ('o, 's) frame \<Rightarrow> py_error + ('o, 's) frame" where
  "iterator_setup E F =
     and_then (iterator_model E (Some (axis F)) (Some (degrees_rad F)) (enter F)) iterator_start"

text \<open>The steps of one iteration, in the order of the source.\<close>

definition iterator_search_areas :: "('o, 's) externals \<Rightarrow> ('o, 's) frame \<Rightarrow> ('o, 's) frame" where
  "iterator_search_areas E F =
     F\<lparr>search_area_obj := search_area_object E (mesh F) (objct F) (factor_object F),
       search_area_receiv := search_area_receivers E (mesh F) (receiver_locations F) (factor_receiver F),
       search_area_sourc := search_area_sources E (mesh F) (source_locations F) (factor_source F)\<rparr>"

definition iterator_refine_mesh :: "('o, 's) externals \<Rightarrow> ('o, 's) frame \<Rightarrow> py_error + ('o, 's) frame" where
  "iterator_refine_mesh E F =
     (let F = F\<lparr>mesh := create_octree_mesh E (domain F) (cell_width F) (objct F) ''surface''\<rparr>;
          F = F\<lparr>mesh := refine_at_locations E (mesh F) (source_locations F)\<rparr>;
          F = F\<lparr>mesh := refine_at_locations E (mesh F) (receiver_locations F)\<rparr>
      in and_then (refine_at_all E (refine_at_object_list F) F) (\<lambda>F.
         and_then (refine_at_all E (refine_at_receivers_list F) F) (\<lambda>F.
         and_then (refine_at_all E (refine_at_sources_list F) F) (\<lambda>F.
           Inr (F\<lparr>mesh := finalize E (mesh F)\<rparr>)))))"

definition iterator_body :: "('o, 's) externals \<Rightarrow> ('o, 's) frame \<Rightarrow> py_error + ('o, 's) frame" where
  "iterator_body E F =
     and_then (interpolate_step E (iterator_search_areas E F)) (\<lambda>F.
     and_then (compare_step F (search_area_obj F) (search_area_receiv F) (search_area_sourc F)) (\<lambda>F.
     and_then (cache_fields F) (\<lambda>F.
     and_then (estimate_and_append E (search_area_obj F) (refine_at_object_list F) F) (\<lambda>F.
     and_then (estimate_and_append E (search_area_receiv F) (refine_at_receivers_list F) F) (\<lambda>F.
     and_then (estimate_and_append E (search_area_sourc F) (refine_at_sources_list F) F) (\<lambda>F.
     and_then (iterator_refine_mesh E F) (\<lambda>F.
     and_then (iterator_model E None None F) (\<lambda>F.
       Inr (F\<lparr>stdout := stdout F @ [PrintI (i_var F)], i_var := i_var F + 1\<rparr>)))))))))"

text \<open>The return statement: the variables of the tuple are read when it is built.\<close>

definition iterator_return :: "('o, 's) frame \<Rightarrow> py_error + 'o outcome" where
  "iterator_return F =
     and_then (read_var (ef_x F)) (\<lambda>ex.
     and_then (read_var (ef_y F)) (\<lambda>ey.
     and_then (read_var (ef_z F)) (\<lambda>ez.
       if diff F < 1 / 100
       then Inr (leave F [PyMesh (mesh F), PyInterp ex, PyInterp ey, PyInterp ez,
                          PyArray (av_diff_list F)])
       else Inr (leave F [PyMesh (mesh F), PyInterp ex, PyInterp ey, PyInterp ez,
                          PyArray (av_diff_list F),
                          ref_value (refine_at_object_list F),
                          ref_value (refine_at_receivers_list F),
                          ref_value (refine_at_sources_list F)]))))"

subsection \<open>iteratornonobject\<close>

text \<open>
  All cells active, the map with \<open>par_inactive\<close>, the model from the caller's
  \<open>resistivity_function\<close>; before the loop and after every mesh rebuild.
\<close>

definition nonobject_model :: "('o, 's) frame \<Rightarrow> ('o, 's) frame" where
  "nonobject_model F =
     (let F = F\<lparr>ind_active := replicate (n_cells (mesh F)) True\<rparr>;
          F = F\<lparr>model_map := InjectActiveCells (mesh F) (ind_active F) (par_inactive F)\<rparr>;
          F = F\<lparr>model := resistivity_function F (cell_centers (mesh F))\<rparr>
      in F)"

definition iteratornonobject_start :: "('o, 's) frame \<Rightarrow> py_error + ('o, 's) frame" where
  "iteratornonobject_start F =
     (let F = F\<lparr>diff := 10, i_var := 0\<rparr>
      in case diff_list F of
           [] \<Rightarrow> Inl IndexError
         | (d0, _) # _ \<Rightarrow>
             if d0 = 0
             then
               (let F = F\<lparr>i_var := 0, av_diff_list := []\<rparr>;
                    (a, F) = new_list F;
                    F = F\<lparr>refine_at_landscape_list := Some a\<rparr>;
                    (a, F) = new_list F;
                    F = F\<lparr>refine_at_receivers_list := Some a\<rparr>;
                    (a, F) = new_list F;
                    F = F\<lparr>refine_at_sources_list := Some a\<rparr>
                in Inr F)
             else
               (let F = F\<lparr>i_var := fst (last (diff_list F))\<rparr>;
                    F = F\<lparr>av_diff_list := diff_list F,
                           refine_at_landscape_list := r_a_l_list F,
                           refine_at_receivers_list := r_a_r_list F,
                           refine_at_sources_list := r_a_s_list F\<rparr>;
                    F = F\<lparr>lim_iterations := lim_iterations F + i_var F\<rparr>;
                    F = F\<lparr>ef_old_x := Bound (Ex_arg F), ef_old_y := Bound (Ey_arg F),
                           ef_old_z := Bound (Ez_arg F)\<rparr>
                in Inr F))"

definition iteratornonobject_setup :: "('o, 's) frame \<Rightarrow> py_error + ('o, 's) frame" where
  "iteratornonobject_setup F = iteratornonobject_start (nonobject_model (enter F))"

definition nonobject_search_areas :: "('o, 's) externals \<Rightarrow> ('o, 's) frame \<Rightarrow> ('o, 's) frame" where
  "nonobject_search_areas E F =
     F\<lparr>search_area_below_landscape :=
         search_area_landscape E (mesh F) (domain F) (landscape F) (factor_landscape F),
       search_area_receiv := search_area_receivers E (mesh F) (receiver_locations F) (factor_receiver F),
       search_area_sourc := search_area_sources E (mesh F) (source_locations F) (factor_source F)\<rparr>"

definition nonobject_refine_mesh :: "('o, 's) externals \<Rightarrow> ('o, 's) frame \<Rightarrow> py_error + ('o, 's) frame" where
  "nonobject_refine_mesh E F =
     (let F = F\<lparr>mesh := create_octree_mesh E (domain F) (cell_width F) (landscape F) ''surface''\<rparr>;
          F = F\<lparr>mesh := refine_at_locations E (mesh F) (source_locations F)\<rparr>;
          F = F\<lparr>mesh := refine_at_locations E (mesh F) (receiver_locations F)\<rparr>
      in and_then (refine_at_all E (refine_at_landscape_list F) F) (\<lambda>F.
         and_then (refine_at_all E (refine_at_receivers_list F) F) (\<lambda>F.
         and_then (refine_at_all E (refine_at_sources_list F) F) (\<lambda>F.
           Inr (F\<lparr>mesh := finalize E (mesh F)\<rparr>)))))"

definition iteratornonobject_body :: "('o, 's) externals \<Rightarrow> ('o, 's) frame \<Rightarrow> py_error + ('o, 's) frame" where
  "iteratornonobject_body E F =
     and_then (interpolate_step E (nonobject_search_areas E F)) (\<lambda>F.
     and_then (compare_step F (search_area_below_landscape F) (search_area_receiv F)
                 (search_area_sourc F)) (\<lambda>F.
     and_then (cache_fields F) (\<lambda>F.
     and_then (estimate_and_append E (search_area_below_landscape F) (refine_at_landscape_list F) F) (\<lambda>F.
     and_then (estimate_and_append E (search_area_receiv F) (refine_at_receivers_list F) F) (\<lambda>F.
     and_then (estimate_and_append E (search_area_sourc F) (refine_at_sources_list F) F) (\<lambda>F.
     and_then (nonobject_refine_mesh E F) (\<lambda>F.
       let F = nonobject_model F
       in Inr (F\<lparr>stdout := stdout F @ [PrintIteration (i_var F)], i_var := i_var F + 1\<rparr>))))))))"

definition iteratornonobject_return :: "('o, 's) frame \<Rightarrow> py_error + 'o outcome" where
  "iteratornonobject_return F =
     and_then (read_var (ef_x F)) (\<lambda>ex.
     and_then (read_var (ef_y F)) (\<lambda>ey.
     and_then (read_var (ef_z F)) (\<lambda>ez.
       if diff F < 1 / 100
       then Inr (leave F [PyMesh (mesh F), PyInterp ex, PyInterp ey, PyInterp ez,
                          PyArray (av_diff_list F)])
       else Inr (leave F [PyMesh (mesh F), PyInterp ex, PyInterp ey, PyInterp ez,
                          PyArray (av_diff_list F),
                          ref_value (refine_at_landscape_list F),
                          ref_value (refine_at_receivers_list F),
                          ref_value (refine_at_sources_list F)]))))"

subsection \<open>The loops\<close>

text \<open>
  Both loops end because every iteration that completes leaves \<open>lim_iterations\<close> alone
  and adds one to the counter. \<open>keeps F F'\<close>: from \<open>F\<close> to \<open>F'\<close> only variables that
  iterations assign to have changed, and the counter has not.
\<close>

definition keeps :: "('o, 's) frame \<Rightarrow> ('o, 's) frame \<Rightarrow> bool" where
  "keeps F F' \<longleftrightarrow> fixed_part F' = fixed_part F \<and> i_var F' = i_var F"

lemma and_then_Inr_iff: "and_then r f = Inr y \<longleftrightarrow> (\<exists>x. r = Inr x \<and> f x = Inr y)"
  by (cases r) auto

lemma keeps_refl: "keeps F F"
  by (simp add: keeps_def)

lemma keeps_trans: "keeps F G \<Longrightarrow> keeps G H \<Longrightarrow> keeps F H"
  by (simp add: keeps_def)

lemma keeps_search_areas:
  "keeps F (iterator_search_areas E F)" "keeps F (nonobject_search_areas E F)"
  by (simp_all add: keeps_def fixed_part_def iterator_search_areas_def nonobject_search_areas_def)

lemma keeps_interpolate_step: "interpolate_step E F = Inr F' \<Longrightarrow> keeps F F'"
  by (auto simp: interpolate_step_def and_then_Inr_iff keeps_def fixed_part_def)

lemma keeps_compare_fields: "compare_fields F a1 a2 a3 = Inr F' \<Longrightarrow> keeps F F'"
  by (auto simp: compare_fields_def and_then_Inr_iff keeps_def fixed_part_def)

lemma keeps_compare_step: "compare_step F a1 a2 a3 = Inr F' \<Longrightarrow> keeps F F'"
  by (auto simp: compare_step_def keeps_refl split: list.splits if_splits
      dest: keeps_compare_fields)

lemma keeps_cache_fields: "cache_fields F = Inr F' \<Longrightarrow> keeps F F'"
  by (auto simp: cache_fields_def and_then_Inr_iff keeps_def fixed_part_def)

lemma keeps_list_append: "list_append r cells F = Inr F' \<Longrightarrow> keeps F F'"
  by (auto simp: list_append_def keeps_def fixed_part_def split: option.splits)

lemma keeps_estimate_and_append: "estimate_and_append E area r F = Inr F' \<Longrightarrow> keeps F F'"
proof -
  assume "estimate_and_append E area r F = Inr F'"
  then obtain saved cells where "list_append r cells (F\<lparr>error_npy := Some saved\<rparr>) = Inr F'"
    unfolding estimate_and_append_def and_then_Inr_iff case_prod_beta Let_def by blast
  then have "keeps (F\<lparr>error_npy := Some saved\<rparr>) F'"
    by (rule keeps_list_append)
  then show ?thesis
    by (simp add: keeps_def fixed_part_def)
qed

lemma keeps_refine_at_all: "refine_at_all E r F = Inr F' \<Longrightarrow> keeps F F'"
  by (auto simp: refine_at_all_def keeps_def fixed_part_def split: option.splits)

lemma keeps_mesh_update: "keeps F (F\<lparr>mesh := m\<rparr>)"
  by (simp add: keeps_def fixed_part_def)

lemma keeps_refine_tail:
  assumes "and_then (refine_at_all E r1 G) (\<lambda>F.
           and_then (refine_at_all E (r2 F) F) (\<lambda>F.
           and_then (refine_at_all E (r3 F) F) (\<lambda>F.
             Inr (F\<lparr>mesh := finalize E (mesh F)\<rparr>)))) = Inr F'"
  shows "keeps G F'"
proof -
  from assms obtain F1 F2 F3 where
    s: "refine_at_all E r1 G = Inr F1" "refine_at_all E (r2 F1) F1 = Inr F2"
      "refine_at_all E (r3 F2) F2 = Inr F3" "F' = F3\<lparr>mesh := finalize E (mesh F3)\<rparr>"
    unfolding and_then_Inr_iff by auto
  have "keeps G F1" using s(1) by (rule keeps_refine_at_all)
  then have "keeps G F2" using keeps_refine_at_all [OF s(2)] by (rule keeps_trans)
  then have "keeps G F3" using keeps_refine_at_all [OF s(3)] by (rule keeps_trans)
  then show ?thesis unfolding s(4) using keeps_mesh_update by (rule keeps_trans)
qed

lemma keeps_refine_mesh:
  assumes "iterator_refine_mesh E F = Inr F' \<or> nonobject_refine_mesh E F = Inr F'"
  shows "keeps F F'"
proof -
  have m3: "keeps F (F\<lparr>mesh := m1\<rparr>\<lparr>mesh := m2\<rparr>\<lparr>mesh := m3\<rparr>)" for m1 m2 m3
    by (simp add: keeps_def fixed_part_def)
  from assms show ?thesis
  proof
    assume "iterator_refine_mesh E F = Inr F'"
    then show ?thesis
      unfolding iterator_refine_mesh_def Let_def
      using m3 keeps_refine_tail keeps_trans by blast
  next
    assume "nonobject_refine_mesh E F = Inr F'"
    then show ?thesis
      unfolding nonobject_refine_mesh_def Let_def
      using m3 keeps_refine_tail keeps_trans by blast
  qed
qed

lemma keeps_iterator_model: "iterator_model E ax dg F = Inr F' \<Longrightarrow> keeps F F'"
  by (auto simp: iterator_model_def Let_def and_then_Inr_iff keeps_def fixed_part_def
      split: if_splits)

lemma keeps_nonobject_model: "keeps F (nonobject_model F)"
  by (simp add: nonobject_model_def Let_def keeps_def fixed_part_def)

lemma iterator_body_steps:
  assumes "iterator_body E F = Inr F'"
  obtains F1 F2 F3 F4 F5 F6 F7 F8 where
    "interpolate_step E (iterator_search_areas E F) = Inr F1"
    "compare_step F1 (search_area_obj F1) (search_area_receiv F1) (search_area_sourc F1) = Inr F2"
    "cache_fields F2 = Inr F3"
    "estimate_and_append E (search_area_obj F3) (refine_at_object_list F3) F3 = Inr F4"
    "estimate_and_append E (search_area_receiv F4) (refine_at_receivers_list F4) F4 = Inr F5"
    "estimate_and_append E (search_area_sourc F5) (refine_at_sources_list F5) F5 = Inr F6"
    "iterator_refine_mesh E F6 = Inr F7"
    "iterator_model E None None F7 = Inr F8"
    "F' = F8\<lparr>stdout := stdout F8 @ [PrintI (i_var F8)], i_var := i_var F8 + 1\<rparr>"
  using assms unfolding iterator_body_def and_then_Inr_iff by blast

lemma iteratornonobject_body_steps:
  assumes "iteratornonobject_body E F = Inr F'"
  obtains F1 F2 F3 F4 F5 F6 F7 F8 where
    "interpolate_step E (nonobject_search_areas E F) = Inr F1"
    "compare_step F1 (search_area_below_landscape F1) (search_area_receiv F1)
       (search_area_sourc F1) = Inr F2"
    "cache_fields F2 = Inr F3"
    "estimate_and_append E (search_area_below_landscape F3) (refine_at_landscape_list F3) F3 = Inr F4"
    "estimate_and_append E (search_area_receiv F4) (refine_at_receivers_list F4) F4 = Inr F5"
    "estimate_and_append E (search_area_sourc F5) (refine_at_sources_list F5) F5 = Inr F6"
    "nonobject_refine_mesh E F6 = Inr F7"
    "F8 = nonobject_model F7"
    "F' = F8\<lparr>stdout := stdout F8 @ [PrintIteration (i_var F8)], i_var := i_var F8 + 1\<rparr>"
  using assms unfolding iteratornonobject_body_def and_then_Inr_iff Let_def by blast

lemma iterator_body_counts:
  assumes "iterator_body E F = Inr F'"
  shows "fixed_part F' = fixed_part F \<and> i_var F' = i_var F + 1"
proof -
  from assms obtain F1 F2 F3 F4 F5 F6 F7 F8 where s:
    "interpolate_step E (iterator_search_areas E F) = Inr F1"
    "compare_step F1 (search_area_obj F1) (search_area_receiv F1) (search_area_sourc F1) = Inr F2"
    "cache_fields F2 = Inr F3"
    "estimate_and_append E (search_area_obj F3) (refine_at_object_list F3) F3 = Inr F4"
    "estimate_and_append E (search_area_receiv F4) (refine_at_receivers_list F4) F4 = Inr F5"
    "estimate_and_append E (search_area_sourc F5) (refine_at_sources_list F5) F5 = Inr F6"
    "iterator_refine_mesh E F6 = Inr F7"
    "iterator_model E None None F7 = Inr F8"
    and F': "F' = F8\<lparr>stdout := stdout F8 @ [PrintI (i_var F8)], i_var := i_var F8 + 1\<rparr>"
    by (rule iterator_body_steps)
  have "keeps F F1"
    using keeps_search_areas(1) keeps_interpolate_step [OF s(1)] by (rule keeps_trans)
  then have "keeps F F2" using keeps_compare_step [OF s(2)] by (rule keeps_trans)
  then have "keeps F F3" using keeps_cache_fields [OF s(3)] by (rule keeps_trans)
  then have "keeps F F4" using keeps_estimate_and_append [OF s(4)] by (rule keeps_trans)
  then have "keeps F F5" using keeps_estimate_and_append [OF s(5)] by (rule keeps_trans)
  then have "keeps F F6" using keeps_estimate_and_append [OF s(6)] by (rule keeps_trans)
  then have "keeps F F7" using keeps_refine_mesh [OF disjI1, OF s(7)] by (rule keeps_trans)
  then have "keeps F F8" using keeps_iterator_model [OF s(8)] by (rule keeps_trans)
  then show ?thesis
    unfolding F' by (simp add: keeps_def fixed_part_def)
qed

lemma iteratornonobject_body_counts:
  assumes "iteratornonobject_body E F = Inr F'"
  shows "fixed_part F' = fixed_part F \<and> i_var F' = i_var F + 1"
proof -
  from assms obtain F1 F2 F3 F4 F5 F6 F7 F8 where s:
    "interpolate_step E (nonobject_search_areas E F) = Inr F1"
    "compare_step F1 (search_area_below_landscape F1) (search_area_receiv F1)
       (search_area_sourc F1) = Inr F2"
    "cache_fields F2 = Inr F3"
    "estimate_and_append E (search_area_below_landscape F3) (refine_at_landscape_list F3) F3 = Inr F4"
    "estimate_and_append E (search_area_receiv F4) (refine_at_receivers_list F4) F4 = Inr F5"
    "estimate_and_append E (search_area_sourc F5) (refine_at_sources_list F5) F5 = Inr F6"
    "nonobject_refine_mesh E F6 = Inr F7"
    "F8 = nonobject_model F7"
    and F': "F' = F8\<lparr>stdout := stdout F8 @ [PrintIteration (i_var F8)], i_var := i_var F8 + 1\<rparr>"
    by (rule iteratornonobject_body_steps)
  have "keeps F F1"
    using keeps_search_areas(2) keeps_interpolate_step [OF s(1)] by (rule keeps_trans)
  then have "keeps F F2" using keeps_compare_step [OF s(2)] by (rule keeps_trans)
  then have "keeps F F3" using keeps_cache_fields [OF s(3)] by (rule keeps_trans)
  then have "keeps F F4" using keeps_estimate_and_append [OF s(4)] by (rule keeps_trans)
  then have "keeps F F5" using keeps_estimate_and_append [OF s(5)] by (rule keeps_trans)
  then have "keeps F F6" using keeps_estimate_and_append [OF s(6)] by (rule keeps_trans)
  then have "keeps F F7" using keeps_refine_mesh [OF disjI2, OF s(7)] by (rule keeps_trans)
  then have "keeps F F8" using keeps_nonobject_model [of F7] unfolding s(8) by (rule keeps_trans)
  then show ?thesis
    unfolding F' by (simp add: keeps_def fixed_part_def)
qed

lemma fixed_part_lim: "fixed_part F' = fixed_part F \<Longrightarrow> lim_iterations F' = lim_iterations F"
  by (simp add: fixed_part_def)

text \<open>\<^verbatim>\<open>while diff > 0.01 and i < lim_iterations: ...\<close>\<close>

function iterator_loop :: "('o, 's) externals \<Rightarrow> ('o, 's) frame \<Rightarrow> py_error + ('o, 's) frame" where
  "iterator_loop E F =
     (if continues F
      then (case iterator_body E F of Inl e \<Rightarrow> Inl e | Inr F' \<Rightarrow> iterator_loop E F')
      else Inr F)"
  by pat_completeness auto
termination
proof (relation "measure (\<lambda>(E, F). nat (lim_iterations F - i_var F))")
  show "wf (measure (\<lambda>(E, F). nat (lim_iterations F - i_var F)))" by simp
next
  fix E :: "('o, 's) externals" and F F' :: "('o, 's) frame"
  assume "continues F" "iterator_body E F = Inr F'"
  then show "((E, F'), (E, F)) \<in> measure (\<lambda>(E, F). nat (lim_iterations F - i_var F))"
    using iterator_body_counts [of E F F'] fixed_part_lim [of F' F]
    by (simp add: continues_def)
qed

function iteratornonobject_loop ::
  "('o, 's) externals \<Rightarrow> ('o, 's) frame \<Rightarrow> py_error + ('o, 's) frame" where
  "iteratornonobject_loop E F =
     (if continues F
      then (case iteratornonobject_body E F of
              Inl e \<Rightarrow> Inl e
            | Inr F' \<Rightarrow> iteratornonobject_loop E F')
      else Inr F)"
  by pat_completeness auto
termination
proof (relation "measure (\<lambda>(E, F). nat (lim_iterations F - i_var F))")
  show "wf (measure (\<lambda>(E, F). nat (lim_iterations F - i_var F)))" by simp
next
  fix E :: "('o, 's) externals" and F F' :: "('o, 's) frame"
  assume "continues F" "iteratornonobject_body E F = Inr F'"
  then show "((E, F'), (E, F)) \<in> measure (\<lambda>(E, F). nat (lim_iterations F - i_var F))"
    using iteratornonobject_body_counts [of E F F'] fixed_part_lim [of F' F]
    by (simp add: continues_def)
qed

declare iterator_loop.simps [simp del]
declare iteratornonobject_loop.simps [simp del]

text \<open>
  How often the loop body is entered (an iteration that raises counts: it was entered).
\<close>

function iterator_iterations :: "('o, 's) externals \<Rightarrow> ('o, 's) frame \<Rightarrow> nat" where
  "iterator_iterations E F =
     (if continues F
      then (case iterator_body E F of Inl e \<Rightarrow> 1 | Inr F' \<Rightarrow> Suc (iterator_iterations E F'))
      else 0)"
  by pat_completeness auto
termination
proof (relation "measure (\<lambda>(E, F). nat (lim_iterations F - i_var F))")
  show "wf (measure (\<lambda>(E, F). nat (lim_iterations F - i_var F)))" by simp
next
  fix E :: "('o, 's) externals" and F F' :: "('o, 's) frame"
  assume "continues F" "iterator_body E F = Inr F'"
  then show "((E, F'), (E, F)) \<in> measure (\<lambda>(E, F). nat (lim_iterations F - i_var F))"
    using iterator_body_counts [of E F F'] fixed_part_lim [of F' F]
    by (simp add: continues_def)
qed

declare iterator_iterations.simps [simp del]

text \<open>The two functions as a whole.\<close>

definition iterator :: "('o, 's) externals \<Rightarrow> ('o, 's) frame \<Rightarrow> py_error + 'o outcome" where
  "iterator E F =
     and_then (iterator_setup E F) (\<lambda>F.
     and_then (iterator_loop E F) iterator_return)"

definition iteratornonobject :: "('o, 's) externals \<Rightarrow> ('o, 's) frame \<Rightarrow> py_error + 'o outcome" where
  "iteratornonobject E F =
     and_then (iteratornonobject_setup F) (\<lambda>F.
     and_then (iteratornonobject_loop E F) iteratornonobject_return)"

section \<open>A small concrete setting\<close>

text \<open>
  Concrete libraries and inputs on which the definitions above can be run; the worked
  examples among the theorems use them. A mesh of this setting has one cell, one face
  and one edge per axis, all at the origin, and remembers in \<open>octree\<close> the refinement
  requests it has received. Every search area is the feature it is asked about, an
  interpolator returns its first sample everywhere, the flux density and the source
  term vanish, the numerical Jacobian is not-a-number throughout, and the index
  permutation is a full stable sort. The x component of the electric field is one more
  than the number of refinement requests of the mesh; the other two components are 1.
  The block covers the one cell only when it is turned by a nonzero angle.
\<close>

definition small_mesh :: "point list list \<Rightarrow> (point list list) mesh" where
  "small_mesh requests =
     \<lparr>faces_x = [(0, 0, 0)], faces_y = [(0, 0, 0)], faces_z = [(0, 0, 0)],
      edges_x = [(0, 0, 0)], edges_y = [(0, 0, 0)], edges_z = [(0, 0, 0)],
      n_faces_x = 1, n_faces_y = 1, n_faces_z = 1,
      n_edges_x = 1, n_edges_y = 1, n_edges_z = 1,
      n_cells = 1, cell_centers = [(0, 0, 0)], octree = requests\<rparr>"

definition first_sample :: "complex list \<Rightarrow> interp" where
  "first_sample vals = (\<lambda>p. case vals of [] \<Rightarrow> 0 | v # _ \<Rightarrow> v)"

definition argsort :: "real list \<Rightarrow> nat list" where
  "argsort a = map snd (sort_key fst (zip a [0 ..< length a]))"

definition small_fields :: "(point list list, unit) simulation \<Rightarrow> real list \<Rightarrow> string \<Rightarrow> cmatrix" where
  "small_fields sim m name =
     (case sim of
        Simulation3DMagneticFluxDensity msh sv k mm \<Rightarrow> [[0], [0], [0]]
      | Simulation3DElectricField msh sv k mm \<Rightarrow>
          [[of_nat (Suc (length (octree msh)))], [1], [1]])"

definition small_world :: "(point list list, unit) externals" where
  "small_world =
     \<lparr>create_octree_mesh = (\<lambda>d w feature how. small_mesh []),
      refine_at_locations = (\<lambda>msh pts. msh\<lparr>octree := octree msh @ [pts]\<rparr>),
      finalize = (\<lambda>msh. msh),
      get_ind_block = (\<lambda>msh act c ax dg.
         replicate (length (filter (\<lambda>b. b) act)) (dg \<noteq> None \<and> dg \<noteq> Some 0)),
      get_ind_sphere = (\<lambda>msh act c r. replicate (length (filter (\<lambda>b. b) act)) True),
      search_area_object = (\<lambda>msh obj f. obj),
      search_area_receivers = (\<lambda>msh locs f. locs),
      search_area_sources = (\<lambda>msh locs f. locs),
      search_area_landscape = (\<lambda>msh d l f. l),
      surface2ind_topo = (\<lambda>msh s. replicate (n_cells msh) True),
      fields_of = small_fields,
      getSourceTerm = (\<lambda>sim f. ([[0], [0], [0]], [[0], [0], [0]])),
      Rbf = (\<lambda>xs ys zs vals. first_sample vals),
      LinearNDInterpolator = (\<lambda>pts vals. first_sample vals),
      NearestNDInterpolator = (\<lambda>pts vals. first_sample vals),
      Jacobian = (\<lambda>f n x. ((None, None, None), (None, None, None), (None, None, None))),
      introselect = (\<lambda>a k. argsort a)\<rparr>"

text \<open>The same setting with an electric field that never changes.\<close>

definition still_world :: "(point list list, unit) externals" where
  "still_world = small_world\<lparr>fields_of := (\<lambda>sim m name. [[1], [1], [1]])\<rparr>"


definition zero_field :: interp where
  "zero_field = (\<lambda>p. 0)"



text \<open>
  A call of either scheme in the small setting: a fresh run (\<open>diff_list = [[0, 0]]\<close>) of at
  most two iterations, a block turned by the angle 1 about the z axis, one object point,
  one receiver and one source. The variables that are not parameters hold arbitrary
  values.
\<close>

definition small_frame :: "(point list list, unit) frame" where
  "small_frame =
     \<lparr>mesh = small_mesh [], domain = ((0, 1), (0, 1), (0, 1)), cell_width = (1, 1, 1),
      receiver_locations = [(1, 0, 0)], source_locations = [(0, 0, 0)], survey = (),
      frequency = 1, omega = 1, parameter = ''resistivity'', interpolation = ''rbf'',
      lim_iterations = 2, factor_receiver = 3, factor_source = 3, refine_percentage = 1 / 20,
      Ex_arg = None, Ey_arg = None, Ez_arg = None, diff_list = [(0, 0)],
      r_a_r_list = None, r_a_s_list = None,
      surface = [(0, 0, 0)], objct = [(0, 0, 1)], coordinates = [0, 1, 0, 1, 0, 1],
      par_background = 1, par_object = 100, ind_object = [], type_object = ''block'',
      factor_object = 2, axis = ''z'', degrees_rad = 1, radius = 1, r_a_o_list = None,
      landscape = [(0, 0, 1)], resistivity_function = map (\<lambda>c. 1), factor_landscape = 2,
      par_inactive = 100000000, r_a_l_list = None,
      model_map = InjectActiveCells (small_mesh []) [] 0, model = [], ind_active = [],
      diff = 0, i_var = 0, av_diff_list = [],
      refine_at_object_list = None, refine_at_landscape_list = None,
      refine_at_receivers_list = None, refine_at_sources_list = None,
      ef_old_x = Unbound, ef_old_y = Unbound, ef_old_z = Unbound,
      search_area_obj = [], search_area_below_landscape = [], search_area_receiv = [],
      search_area_sourc = [],
      curl_x = Unbound, curl_y = Unbound, curl_z = Unbound,
      ef_x = Unbound, ef_y = Unbound, ef_z = Unbound,
      heap = (\<lambda>a. []), next_ref = 0, error_npy = None, stdout = []\<rparr>"

section \<open>Running the definitions in the small setting\<close>

lemma small_world_sel:
  "create_octree_mesh small_world = (\<lambda>d w feature how. small_mesh [])"
  "refine_at_locations small_world = (\<lambda>msh pts. msh\<lparr>octree := octree msh @ [pts]\<rparr>)"
  "finalize small_world = (\<lambda>msh. msh)"
  "get_ind_block small_world = (\<lambda>msh act c ax dg.
         replicate (length (filter (\<lambda>b. b) act)) (dg \<noteq> None \<and> dg \<noteq> Some 0))"
  "get_ind_sphere small_world = (\<lambda>msh act c r. replicate (length (filter (\<lambda>b. b) act)) True)"
  "search_area_object small_world = (\<lambda>msh obj f. obj)"
  "search_area_receivers small_world = (\<lambda>msh locs f. locs)"
  "search_area_sources small_world = (\<lambda>msh locs f. locs)"
  "search_area_landscape small_world = (\<lambda>msh d l f. l)"
  "surface2ind_topo small_world = (\<lambda>msh s. replicate (n_cells msh) True)"
  "fields_of small_world = small_fields"
  "getSourceTerm small_world = (\<lambda>sim f. ([[0], [0], [0]], [[0], [0], [0]]))"
  "Rbf small_world = (\<lambda>xs ys zs vals. first_sample vals)"
  "LinearNDInterpolator small_world = (\<lambda>pts vals. first_sample vals)"
  "NearestNDInterpolator small_world = (\<lambda>pts vals. first_sample vals)"
  "Jacobian small_world = (\<lambda>f n x. ((None, None, None), (None, None, None), (None, None, None)))"
  "introselect small_world = (\<lambda>a k. argsort a)"
  by (simp_all add: small_world_def)



section \<open>The loops, in general\<close>

lemma iterator_loop_continue:
  "continues F \<Longrightarrow> iterator_loop E F =
     (case iterator_body E F of Inl e \<Rightarrow> Inl e | Inr F' \<Rightarrow> iterator_loop E F')"
  by (subst iterator_loop.simps) simp

lemma iterator_loop_exit: "\<not> continues F \<Longrightarrow> iterator_loop E F = Inr F"
  by (subst iterator_loop.simps) simp

lemma iteratornonobject_loop_continue:
  "continues F \<Longrightarrow> iteratornonobject_loop E F =
     (case iteratornonobject_body E F of Inl e \<Rightarrow> Inl e | Inr F' \<Rightarrow> iteratornonobject_loop E F')"
  by (subst iteratornonobject_loop.simps) simp

lemma iteratornonobject_loop_exit: "\<not> continues F \<Longrightarrow> iteratornonobject_loop E F = Inr F"
  by (subst iteratornonobject_loop.simps) simp

lemma iterator_iterations_continue:
  "continues F \<Longrightarrow> iterator_iterations E F =
     (case iterator_body E F of Inl e \<Rightarrow> 1 | Inr F' \<Rightarrow> Suc (iterator_iterations E F'))"
  by (subst iterator_iterations.simps) simp

lemma iterator_iterations_exit: "\<not> continues F \<Longrightarrow> iterator_iterations E F = 0"
  by (subst iterator_iterations.simps) simp

lemma iterator_loop_step:
  assumes "continues F" "iterator_loop E F = Inr F'"
  obtains G where "iterator_body E F = Inr G" "iterator_loop E G = Inr F'"
proof -
  from assms have "(case iterator_body E F of Inl e \<Rightarrow> Inl e | Inr G \<Rightarrow> iterator_loop E G) = Inr F'"
    by (simp only: iterator_loop_continue)
  then show thesis
    by (cases "iterator_body E F") (simp_all add: that)
qed

lemma iteratornonobject_loop_step:
  assumes "continues F" "iteratornonobject_loop E F = Inr F'"
  obtains G where "iteratornonobject_body E F = Inr G" "iteratornonobject_loop E G = Inr F'"
proof -
  from assms have "(case iteratornonobject_body E F of Inl e \<Rightarrow> Inl e
                    | Inr G \<Rightarrow> iteratornonobject_loop E G) = Inr F'"
    by (simp only: iteratornonobject_loop_continue)
  then show thesis
    by (cases "iteratornonobject_body E F") (simp_all add: that)
qed

lemma iterator_loop_final:
  "iterator_loop E F = Inr F' \<Longrightarrow> \<not> continues F'"
proof (induction E F rule: iterator_loop.induct)
  case (1 E F)
  show ?case
  proof (cases "continues F")
    case True
    from True "1.prems" obtain G where G: "iterator_body E F = Inr G" "iterator_loop E G = Inr F'"
      by (rule iterator_loop_step)
    from "1.IH" [OF True G] show ?thesis .
  next
    case False
    with "1.prems" show ?thesis by (simp add: iterator_loop_exit)
  qed
qed

lemma iteratornonobject_loop_final:
  "iteratornonobject_loop E F = Inr F' \<Longrightarrow> \<not> continues F'"
proof (induction E F rule: iteratornonobject_loop.induct)
  case (1 E F)
  show ?case
  proof (cases "continues F")
    case True
    from True "1.prems" obtain G where G: "iteratornonobject_body E F = Inr G"
      "iteratornonobject_loop E G = Inr F'"
      by (rule iteratornonobject_loop_step)
    from "1.IH" [OF True G] show ?thesis .
  next
    case False
    with "1.prems" show ?thesis by (simp add: iteratornonobject_loop_exit)
  qed
qed





lemma iterator_start_nonempty:
  assumes "iterator_start G = Inr F0"
  shows "diff_list G \<noteq> []"
  using assms by (auto simp: iterator_start_def Let_def)

















section \<open>A run of iterator in the small setting\<close>

lemma relative_difference_x:
  "relative_difference (a, 1, 1) (b, 1, 1) = cmod ((a - b) / a)"
  by (simp add: relative_difference_def linalg_norm_def at0_def at1_def at2_def)

lemma small_zero_error:
  "compute_cell_error small_world cell zero_field zero_field zero_field f g h = 0"
  by (simp add: compute_cell_error_def small_world_sel nan_to_zero_def map_vec3_def
      at0_def at1_def at2_def linalg_norm_def vec3_sub_def zero_field_def zero_if_nan_def)

lemma first_sample_zero: "first_sample [0] = zero_field"
  by (simp add: first_sample_def zero_field_def)

lemma first_sample_apply: "first_sample (v # vs) p = v"
  by (simp add: first_sample_def)

lemmas small_eval = first_sample_apply
  iterator_setup_def iterator_start_def iterator_model_def enter_def
  small_world_sel mask_assign_def new_list_def Let_def small_mesh_def
  iterator_body_def iterator_search_areas_def interpolate_step_def
  estimate_curl_electric_field_def np_subtract_def np_scale_def np_reshape_def slice_def
  interpolate_rbf_def small_fields_def first_sample_zero
  compare_step_def compare_fields_def form_norm_def ef_interpolator_def ef_old_interpolator_def
  call_interp_def call_old_interp_def average_def relative_difference_x
  cache_fields_def read_var_def estimate_and_append_def estimate_error_def small_zero_error
  np_argpartition_def argsort_def slice_from_def take_rows_def list_append_def
  iterator_refine_mesh_def refine_at_all_def at0_def at1_def at2_def

lemma small_first_iteration:
  "\<exists>F0 F1. iterator_setup small_world small_frame = Inr F0
     \<and> iterator_body small_world F0 = Inr F1
     \<and> model F0 = [100] \<and> model F1 = [1] \<and> av_diff_list F1 = [] \<and> i_var F1 = 1 \<and> diff F1 = 10"
  by (simp add: small_eval small_frame_def)



lemma small_run:
  "\<exists>F0 F1 F2. iterator_setup small_world small_frame = Inr F0
     \<and> iterator_body small_world F0 = Inr F1
     \<and> iterator_body small_world F1 = Inr F2
     \<and> continues F0 \<and> continues F1 \<and> \<not> continues F2
     \<and> model F0 = [100] \<and> model F1 = [1] \<and> ind_active F1 = [True]
     \<and> type_object F1 = ''block'' \<and> par_object F1 = 100 \<and> par_background F1 = 1
     \<and> axis F1 = ''z'' \<and> degrees_rad F1 = 1
     \<and> get_ind_block small_world (mesh F1) (ind_active F1) (coordinates F1)
           (Some (axis F1)) (Some (degrees_rad F1)) = [True]
     \<and> av_diff_list F0 = [] \<and> av_diff_list F1 = [] \<and> av_diff_list F2 = [(2, 5)]
     \<and> diff F2 = 5 \<and> i_var F2 = 2
     \<and> heap F2 0 = [[(0, 0, 1)], [(0, 0, 1)]]
     \<and> octree (mesh F2) = [[(0, 0, 0)], [(1, 0, 0)], [(0, 0, 1)], [(0, 0, 1)],
                              [(1, 0, 0)], [(1, 0, 0)], [(0, 0, 0)], [(0, 0, 0)]]
     \<and> map_sum id (\<lambda>out. length (returned out)) (iterator_return F2) = Inr 8"
  by (simp add: small_eval small_frame_def continues_def iterator_return_def leave_def)


text \<open>The whole run, and the run in the setting whose field never changes.\<close>

lemma still_world_sel:
  "create_octree_mesh still_world = (\<lambda>d w feature how. small_mesh [])"
  "refine_at_locations still_world = (\<lambda>msh pts. msh\<lparr>octree := octree msh @ [pts]\<rparr>)"
  "finalize still_world = (\<lambda>msh. msh)"
  "get_ind_block still_world = (\<lambda>msh act c ax dg.
         replicate (length (filter (\<lambda>b. b) act)) (dg \<noteq> None \<and> dg \<noteq> Some 0))"
  "get_ind_sphere still_world = (\<lambda>msh act c r. replicate (length (filter (\<lambda>b. b) act)) True)"
  "search_area_object still_world = (\<lambda>msh obj f. obj)"
  "search_area_receivers still_world = (\<lambda>msh locs f. locs)"
  "search_area_sources still_world = (\<lambda>msh locs f. locs)"
  "search_area_landscape still_world = (\<lambda>msh d l f. l)"
  "surface2ind_topo still_world = (\<lambda>msh s. replicate (n_cells msh) True)"
  "fields_of still_world = (\<lambda>sim m name. [[1], [1], [1]])"
  "getSourceTerm still_world = (\<lambda>sim f. ([[0], [0], [0]], [[0], [0], [0]]))"
  "Rbf still_world = (\<lambda>xs ys zs vals. first_sample vals)"
  "LinearNDInterpolator still_world = (\<lambda>pts vals. first_sample vals)"
  "NearestNDInterpolator still_world = (\<lambda>pts vals. first_sample vals)"
  "Jacobian still_world = (\<lambda>f n x. ((None, None, None), (None, None, None), (None, None, None)))"
  "introselect still_world = (\<lambda>a k. argsort a)"
  by (simp_all add: still_world_def small_world_def)

lemma still_zero_error:
  "compute_cell_error still_world cell zero_field zero_field zero_field f g h = 0"
  by (simp add: compute_cell_error_def still_world_sel nan_to_zero_def map_vec3_def
      at0_def at1_def at2_def linalg_norm_def vec3_sub_def zero_field_def zero_if_nan_def)

lemmas still_eval = first_sample_apply
  iterator_setup_def iterator_start_def iterator_model_def enter_def
  still_world_sel mask_assign_def new_list_def Let_def small_mesh_def
  iterator_body_def iterator_search_areas_def interpolate_step_def
  estimate_curl_electric_field_def np_subtract_def np_scale_def np_reshape_def slice_def
  interpolate_rbf_def first_sample_zero
  compare_step_def compare_fields_def form_norm_def ef_interpolator_def ef_old_interpolator_def
  call_interp_def call_old_interp_def average_def relative_difference_x
  cache_fields_def read_var_def estimate_and_append_def estimate_error_def still_zero_error
  np_argpartition_def argsort_def slice_from_def take_rows_def list_append_def
  iterator_refine_mesh_def refine_at_all_def at0_def at1_def at2_def

lemma still_run:
  "\<exists>F0 F1 F2. iterator_setup still_world small_frame = Inr F0
     \<and> iterator_body still_world F0 = Inr F1
     \<and> iterator_body still_world F1 = Inr F2
     \<and> continues F0 \<and> continues F1 \<and> \<not> continues F2
     \<and> av_diff_list F2 = [(2, 0)] \<and> diff F2 = 0 \<and> i_var F2 = 2
     \<and> map_sum id (\<lambda>out. length (returned out)) (iterator_return F2) = Inr 5"
  by (simp add: still_eval small_frame_def continues_def iterator_return_def leave_def)

lemma small_loop:
  "\<exists>F0 F2. iterator_setup small_world small_frame = Inr F0
     \<and> iterator_loop small_world F0 = Inr F2
     \<and> iterator_iterations small_world F0 = 2
     \<and> iterator small_world small_frame = iterator_return F2
     \<and> av_diff_list F0 = [] \<and> av_diff_list F2 = [(2, 5)] \<and> diff F2 = 5 \<and> i_var F2 = 2
     \<and> map_sum id (\<lambda>out. length (returned out)) (iterator_return F2) = Inr 8"
proof -
  from small_run obtain F0 F1 F2 where r:
    "iterator_setup small_world small_frame = Inr F0"
    "iterator_body small_world F0 = Inr F1" "iterator_body small_world F1 = Inr F2"
    "continues F0" "continues F1" "\<not> continues F2"
    "av_diff_list F0 = []" "av_diff_list F2 = [(2, 5)]" "diff F2 = 5" "i_var F2 = 2"
    "map_sum id (\<lambda>out. length (returned out)) (iterator_return F2) = Inr 8"
    by blast
  have l: "iterator_loop small_world F0 = Inr F2"
    by (simp add: iterator_loop_continue [OF r(4)] iterator_loop_continue [OF r(5)]
        iterator_loop_exit [OF r(6)] r(2,3))
  have n: "iterator_iterations small_world F0 = 2"
    by (simp add: iterator_iterations_continue [OF r(4)] iterator_iterations_continue [OF r(5)]
        iterator_iterations_exit [OF r(6)] r(2,3))
  have w: "iterator small_world small_frame = iterator_return F2"
    by (simp add: iterator_def r(1) l)
  from r l n w show ?thesis by blast
qed

lemma still_loop:
  "\<exists>F0 F2. iterator_setup still_world small_frame = Inr F0
     \<and> iterator_loop still_world F0 = Inr F2
     \<and> iterator still_world small_frame = iterator_return F2
     \<and> diff F2 = 0 \<and> i_var F2 = 2
     \<and> map_sum id (\<lambda>out. length (returned out)) (iterator_return F2) = Inr 5"
proof -
  from still_run obtain F0 F1 F2 where r:
    "iterator_setup still_world small_frame = Inr F0"
    "iterator_body still_world F0 = Inr F1" "iterator_body still_world F1 = Inr F2"
    "continues F0" "continues F1" "\<not> continues F2"
    "diff F2 = 0" "i_var F2 = 2"
    "map_sum id (\<lambda>out. length (returned out)) (iterator_return F2) = Inr 5"
    by blast
  have l: "iterator_loop still_world F0 = Inr F2"
    by (simp add: iterator_loop_continue [OF r(4)] iterator_loop_continue [OF r(5)]
        iterator_loop_exit [OF r(6)] r(2,3))
  have w: "iterator still_world small_frame = iterator_return F2"
    by (simp add: iterator_def r(1) l)
  from r l w show ?thesis by blast
qed
section \<open>Properties of the seafloor derivation\<close>


lemma sequence_sum_all_Inr:
  "(\<And>r. r \<in> set rs \<Longrightarrow> \<exists>x. r = Inr x) \<Longrightarrow> \<exists>xs. sequence_sum rs = Inr xs"
proof (induction rs)
  case Nil
  then show ?case by simp
next
  case (Cons r rs)
  then obtain x where "r = Inr x" by auto
  moreover from Cons obtain xs where "sequence_sum rs = Inr xs" by auto
  ultimately show ?case by simp
qed

lemma filter_first_hit:
  assumes "k < length ps" "P (ps ! k)" "\<forall>j<k. \<not> P (ps ! j)"
  shows "filter P ps = ps ! k # filter P (drop (Suc k) ps)"
proof -
  have "filter P (take k ps) = []"
    using assms by (auto simp: filter_empty_conv in_set_conv_nth)
  moreover have "ps = take k ps @ ps ! k # drop (Suc k) ps"
    using assms(1) by (simp add: id_take_nth_drop)
  ultimately show ?thesis
    using assms(2) by (metis append_Nil filter.simps(2) filter_append)
qed

lemma seafloor_column_first:
  assumes len: "length column = length nodes - 1"
    and k: "k < length column" "column ! k < 33 / 100" "\<forall>j<k. \<not> column ! j < 33 / 100"
  shows "seafloor_column nodes column = Inr (nodes ! k)"
proof -
  let ?ps = "zip (butlast nodes) column"
  let ?P = "\<lambda>(z, r). r < (33 / 100 :: real)"
  have lz: "length ?ps = length column" using len by simp
  have "filter ?P ?ps = ?ps ! k # filter ?P (drop (Suc k) ?ps)"
    by (rule filter_first_hit) (use k lz len in auto)
  moreover have "?ps ! k = (nodes ! k, column ! k)"
    using k len by (simp add: nth_butlast)
  ultimately show ?thesis
    using len by (simp add: seafloor_column_def)
qed

lemma first_below_exists:
  assumes "k < length column" "column ! k < 33 / 100"
  shows "\<exists>k'. first_below column k'"
proof -
  define P where "P = (\<lambda>k. k < length column \<and> column ! k < 33 / 100)"
  define m where "m = (LEAST k. P k)"
  have "P k" using assms by (simp add: P_def)
  then have Pm: "P m" unfolding m_def by (rule LeastI)
  have "\<not> column ! j < 33 / 100" if "j < m" for j
  proof -
    from that have "\<not> P j" unfolding m_def by (rule not_less_Least)
    moreover from that Pm have "j < length column" by (simp add: P_def)
    ultimately show ?thesis by (simp add: P_def)
  qed
  with Pm have "first_below column m"
    by (simp add: first_below_def P_def)
  then show ?thesis ..
qed

lemma seafloor_entry_first:
  assumes "i < length property_x" "ii < length (property_x ! i)"
    and "length (property_x ! i ! ii) = length (nodes_z tm) - 1"
    and "first_below (property_x ! i ! ii) k"
  shows "seafloor_entry tm property_x i ii = Inr (nodes_z tm ! k)"
  using assms
  by (simp add: seafloor_entry_def property_column_def first_below_def seafloor_column_first)





lemma seafloor_returns:
  assumes "\<And>i ii. i < fst (shape_cells tm) \<Longrightarrow> ii < fst (snd (shape_cells tm)) \<Longrightarrow>
      i < length property_x \<and> ii < length (property_x ! i) \<and>
      length (property_x ! i ! ii) = length (nodes_z tm) - 1 \<and>
      (\<exists>k < length (property_x ! i ! ii). property_x ! i ! ii ! k < 33 / 100)"
  shows "\<exists>sf. seafloor tm property_x = Inr sf"
  unfolding seafloor_def
proof (rule sequence_sum_all_Inr)
  fix r
  assume "r \<in> set (map (\<lambda>i. sequence_sum (map (seafloor_entry tm property_x i)
             [0 ..< fst (snd (shape_cells tm))])) [0 ..< fst (shape_cells tm)])"
  then obtain i where i: "i < fst (shape_cells tm)"
    and r: "r = sequence_sum (map (seafloor_entry tm property_x i)
             [0 ..< fst (snd (shape_cells tm))])"
    by auto
  have "\<exists>xs. sequence_sum (map (seafloor_entry tm property_x i)
             [0 ..< fst (snd (shape_cells tm))]) = Inr xs"
  proof (rule sequence_sum_all_Inr)
    fix q
    assume "q \<in> set (map (seafloor_entry tm property_x i) [0 ..< fst (snd (shape_cells tm))])"
    then obtain ii where ii: "ii < fst (snd (shape_cells tm))"
      and q: "q = seafloor_entry tm property_x i ii"
      by auto
    from assms [OF i ii] obtain k where
      "i < length property_x" "ii < length (property_x ! i)"
      "length (property_x ! i ! ii) = length (nodes_z tm) - 1"
      "k < length (property_x ! i ! ii)" "property_x ! i ! ii ! k < 33 / 100"
      by blast
    moreover from this obtain k' where "first_below (property_x ! i ! ii) k'"
      using first_below_exists by blast
    ultimately show "\<exists>x. q = Inr x"
      using q seafloor_entry_first by blast
  qed
  with r show "\<exists>x. r = Inr x" by simp
qed




section \<open>compute_cell_error and estimate_error\<close>










section \<open>estimate_curl_electric_field\<close>









section \<open>Iterations of iterator\<close>




section \<open>Refinement histories\<close>





section \<open>The model after a mesh rebuild\<close>

text \<open>
  Claim C8. Before the loop \<open>iterator\<close> computes the block's indicator with the caller's
  axis and angle, \<^verbatim>\<open>get_ind_block(mesh, ind_active, coordinates, axis, degrees_rad)\<close>; after a
  mesh rebuild it calls \<^verbatim>\<open>get_ind_block(mesh, ind_active, coordinates)\<close>. In the small
  setting the block covers the one cell only when it is turned: the model before the loop
  is \<open>[par_object]\<close>, and after the first rebuild it is \<open>[par_background]\<close>, although the
  indicator with the caller's axis and angle marks the one active cell of the new mesh.
\<close>

theorem iterator_rebuild_omits_block_rotation:
  "\<exists>F0 F1. iterator_setup small_world small_frame = Inr F0
     \<and> iterator_body small_world F0 = Inr F1
     \<and> type_object F1 = ''block'' \<and> axis F1 = ''z'' \<and> degrees_rad F1 = 1
     \<and> par_object F1 = 100 \<and> par_background F1 = 1
     \<and> ind_active F1 = [True]
     \<and> get_ind_block small_world (mesh F1) (ind_active F1) (coordinates F1)
           (Some (axis F1)) (Some (degrees_rad F1)) = [True]
     \<and> model F0 = [100] \<and> model F1 = [1]"
proof -
  from small_run obtain F0 F1 where
    "iterator_setup small_world small_frame = Inr F0"
    "iterator_body small_world F0 = Inr F1"
    "type_object F1 = ''block''" "axis F1 = ''z''" "degrees_rad F1 = 1"
    "par_object F1 = 100" "par_background F1 = 1" "ind_active F1 = [True]"
    "get_ind_block small_world (mesh F1) (ind_active F1) (coordinates F1)
           (Some (axis F1)) (Some (degrees_rad F1)) = [True]"
    "model F0 = [100]" "model F1 = [1]"
    by blast
  then show ?thesis by blast
qed


section \<open>The model arguments of iteratornonobject\<close>

text \<open>
  Claim C10. \<open>iteratornonobject\<close> assigns to \<open>model_map\<close> and \<open>model\<close> before it reads
  them: two calls that differ only in these two arguments give the same result, the same
  output and the same list objects. The map is built from the mask that is true for every
  cell of the mesh with the fill value \<open>par_inactive\<close>, the model is
  \<open>resistivity_function\<close> at the cell centers of the mesh.
\<close>

theorem iteratornonobject_ignores_model_arguments:
  "iteratornonobject E (F\<lparr>model_map := mm, model := mdl\<rparr>) = iteratornonobject E F
   \<and> nonobject_model (enter (F\<lparr>model_map := mm, model := mdl\<rparr>)) = nonobject_model (enter F)
   \<and> model_map (nonobject_model (enter F))
       = InjectActiveCells (mesh F) (replicate (n_cells (mesh F)) True) (par_inactive F)
   \<and> model (nonobject_model (enter F)) = resistivity_function F (cell_centers (mesh F))"
proof -
  have m: "nonobject_model (enter (F\<lparr>model_map := mm, model := mdl\<rparr>)) = nonobject_model (enter F)"
    by (simp add: nonobject_model_def enter_def Let_def)
  then have "iteratornonobject_setup (F\<lparr>model_map := mm, model := mdl\<rparr>) = iteratornonobject_setup F"
    by (simp only: iteratornonobject_setup_def)
  then have "iteratornonobject E (F\<lparr>model_map := mm, model := mdl\<rparr>) = iteratornonobject E F"
    by (simp only: iteratornonobject_def)
  moreover have "model_map (nonobject_model (enter F))
       = InjectActiveCells (mesh F) (replicate (n_cells (mesh F)) True) (par_inactive F)"
    "model (nonobject_model (enter F)) = resistivity_function F (cell_centers (mesh F))"
    by (simp_all add: nonobject_model_def enter_def Let_def)
  ultimately show ?thesis using m by simp
qed

end
